theory Spec2Isabelle
  imports Complex_Main "HOL-Library.AList" "HOL-Library.Sublist"
begin

section \<open>The Sanctuary of Nature API: data model\<close>

text \<open>
  The repository is a FastAPI application (\<^verbatim>\<open>src/main.py\<close>) over pydantic schemas
  (\<^verbatim>\<open>src/schemas.py\<close>). Python values that travel through dictionaries (filters,
  stored documents) are values of \<open>pyval\<close>; a Python \<^verbatim>\<open>dict\<close> with string keys is an
  association list in insertion order, assigned to with \<open>AList.update\<close>. A Python
  \<^verbatim>\<open>float\<close> is a \<open>real\<close>: the program never computes with one, it only tests
  presence and copies the value. A Python \<^verbatim>\<open>str\<close> is a \<open>string\<close>; the few code
  points beyond ASCII in the program's fixed texts are written as their UTF-8 bytes.
\<close>

datatype pyval =
    PNone
  | PStr string
  | PInt int
  | PFloat real
  | PList "pyval list"
  | PDict "(string \<times> pyval) list"

type_synonym pydict = "(string \<times> pyval) list"

subsection \<open>Schemas (\<^verbatim>\<open>src/schemas.py\<close>)\<close>

record Host =
  name :: string
  bio :: "string option"
  specialties :: "string list"
  website :: "string option"
  location :: "string option"

record Location =
  title :: string
  region :: string
  nature_type :: string
  description :: "string option"
  image_url :: "string option"

record Retreat =
  title :: string
  description :: "string option"
  host_name :: string
  location_title :: string
  nature_type :: string
  focus :: "string list"
  duration_days :: int
  price_usd :: real
  start_date :: "string option"
  image_url :: "string option"

record Message =
  author :: string
  content :: string
  topic :: "string option"

record Preference =
  energy :: "string option"
  preferred_nature :: "string option"
  budget :: "real option"
  duration :: "int option"
  goals :: "string option"

text \<open>\<^verbatim>\<open>class QuizInput(BaseModel)\<close> of \<^verbatim>\<open>src/main.py\<close>: the same five optional fields.\<close>

record QuizInput =
  energy :: "string option"
  preferred_nature :: "string option"
  budget :: "real option"
  duration :: "int option"
  goals :: "string option"

text \<open>
  The field constraints of \<open>Retreat\<close>: \<^verbatim>\<open>duration_days: int = Field(..., ge=1, le=60)\<close>
  and \<^verbatim>\<open>price_usd: float = Field(..., ge=0)\<close>. No other field of any schema carries a
  range constraint.
\<close>

definition Retreat_fields_ok :: "Retreat \<Rightarrow> bool" where
  "Retreat_fields_ok r \<longleftrightarrow>
     1 \<le> duration_days r \<and> duration_days r \<le> 60 \<and> 0 \<le> price_usd r"

subsection \<open>pydantic's \<^verbatim>\<open>model_dump\<close>\<close>

definition opt_str :: "string option \<Rightarrow> pyval" where
  "opt_str v = (case v of None \<Rightarrow> PNone | Some s \<Rightarrow> PStr s)"

definition str_list :: "string list \<Rightarrow> pyval" where
  "str_list xs = PList (map PStr xs)"

datatype model = HostM Host | LocationM Location | RetreatM Retreat | MessageM Message

fun model_dump :: "model \<Rightarrow> pydict" where
  "model_dump (HostM h) =
     [(''name'', PStr (name h)), (''bio'', opt_str (bio h)),
      (''specialties'', str_list (specialties h)), (''website'', opt_str (website h)),
      (''location'', opt_str (location h))]"
| "model_dump (LocationM l) =
     [(''title'', PStr (Location.title l)), (''region'', PStr (region l)),
      (''nature_type'', PStr (Location.nature_type l)),
      (''description'', opt_str (Location.description l)),
      (''image_url'', opt_str (Location.image_url l))]"
| "model_dump (RetreatM r) =
     [(''title'', PStr (Retreat.title r)), (''description'', opt_str (Retreat.description r)),
      (''host_name'', PStr (host_name r)), (''location_title'', PStr (location_title r)),
      (''nature_type'', PStr (Retreat.nature_type r)), (''focus'', str_list (focus r)),
      (''duration_days'', PInt (duration_days r)), (''price_usd'', PFloat (price_usd r)),
      (''start_date'', opt_str (start_date r)), (''image_url'', opt_str (Retreat.image_url r))]"
| "model_dump (MessageM m) =
     [(''author'', PStr (author m)), (''content'', PStr (content m)),
      (''topic'', opt_str (topic m))]"

subsection \<open>Exceptions\<close>

text \<open>
  \<open>Exception m\<close> is any exception of the storage layer whose \<^verbatim>\<open>str\<close> is \<open>m\<close>;
  \<open>HTTPException c d\<close> is FastAPI's, with its status code and detail. \<^verbatim>\<open>str\<close> of an
  \<open>HTTPException\<close> is the framework's \<^verbatim>\<open>f"{status_code}: {detail}"\<close>.
\<close>

datatype exn = Exception string | HTTPException nat string

fun str_nat :: "nat \<Rightarrow> string" where
  "str_nat n =
     (if n < 10 then [''0123456789'' ! n]
      else str_nat (n div 10) @ [''0123456789'' ! (n mod 10)])"

fun str_exn :: "exn \<Rightarrow> string" where
  "str_exn (Exception m) = m"
| "str_exn (HTTPException c d) = str_nat c @ '': '' @ d"

text \<open>What a call returned, if it returned: \<open>None\<close> when it raised.\<close>

fun returned :: "exn + 'a \<Rightarrow> 'a option" where
  "returned (Inl e) = None"
| "returned (Inr v) = Some v"

section \<open>The document store\<close>

text \<open>
  \<^verbatim>\<open>from database import db, create_document, get_documents\<close>: the module
  \<^verbatim>\<open>database.py\<close> is not among the sources. The state below is what its three names
  act on. \<open>db\<close> is the module's handle (\<open>None\<close> when no connection was configured);
  behind a handle are the collections, each a list of stored documents with their
  store-generated identifiers, in insertion order. \<open>db_fault\<close> is an underlying failure
  of the external database: while it is \<open>Some m\<close>, every call on the handle raises an
  exception whose text is \<open>m\<close>. \<open>trace\<close> records the storage calls the handlers make,
  in order, with their arguments.
\<close>

datatype 'a attr = Missing | Raising string | Attr 'a

record Database =
  db_name :: "string attr"
  db_fault :: "string option"
  db_data :: "(string \<times> (string \<times> pydict) list) list"
  db_next_id :: nat

datatype call =
    CreateDocument string model
  | GetDocuments string pydict "nat option"
  | ListCollectionNames

record world =
  db :: "Database option"
  environ :: "string \<rightharpoonup> string"
  default_limit :: nat
  unavailable_text :: string
  trace :: "call list"

definition find_collection :: "Database \<Rightarrow> string \<Rightarrow> (string \<times> pydict) list" where
  "find_collection d c = (case map_of (db_data d) c of None \<Rightarrow> [] | Some docs \<Rightarrow> docs)"

text \<open>
  Modelled from the spec: the filter semantics of \<open>get_documents\<close> (section 4.1: a
  mapping from field name to either an exact-match value or a small set of comparison
  operators, at-most and equals; garbage filters simply match nothing).
\<close>

fun num_of :: "pyval \<Rightarrow> real option" where
  "num_of (PInt i) = Some (real_of_int i)"
| "num_of (PFloat r) = Some r"
| "num_of v = None"

definition at_most :: "pyval \<Rightarrow> pyval \<Rightarrow> bool" where
  "at_most v b = (case num_of v of None \<Rightarrow> False
     | Some x \<Rightarrow> (case num_of b of None \<Rightarrow> False | Some y \<Rightarrow> x \<le> y))"

definition holds_op :: "pyval \<Rightarrow> string \<times> pyval \<Rightarrow> bool" where
  "holds_op v ob =
     (if fst ob = ''$lte'' then at_most v (snd ob)
      else if fst ob = ''$eq'' then v = snd ob
      else False)"

fun holds :: "pyval option \<Rightarrow> pyval \<Rightarrow> bool" where
  "holds None c = False"
| "holds (Some v) (PDict ops) = (if ops = [] then v = PDict [] else list_all (holds_op v) ops)"
| "holds (Some v) c = (v = c)"

definition doc_matches :: "pydict \<Rightarrow> pydict \<Rightarrow> bool" where
  "doc_matches filter_dict doc = list_all (\<lambda>kc. holds (map_of doc (fst kc)) (snd kc)) filter_dict"

text \<open>
  Modelled from the spec: \<open>get_documents\<close> of the absent \<^verbatim>\<open>database.py\<close> (section 4.1:
  returns up to \<open>limit\<close> documents, a default cap when none is given, from the named
  collection matching the filter; strips the store-internal identifier; fails when no
  live connection exists).
\<close>

definition get_documents ::
  "string \<Rightarrow> pydict \<Rightarrow> nat option \<Rightarrow> world \<Rightarrow> (exn + pydict list) \<times> world" where
  "get_documents collection_name filter_dict limit w =
     (let w = w\<lparr>trace := trace w @ [GetDocuments collection_name filter_dict limit]\<rparr> in
      case db w of
        None \<Rightarrow> (Inl (Exception (unavailable_text w)), w)
      | Some d \<Rightarrow>
          (case db_fault d of
             Some m \<Rightarrow> (Inl (Exception m), w)
           | None \<Rightarrow>
               (Inr (take (case limit of None \<Rightarrow> default_limit w | Some n \<Rightarrow> n)
                       (filter (doc_matches filter_dict)
                          (map snd (find_collection d collection_name)))), w)))"

text \<open>
  Modelled from the spec: \<open>create_document\<close> of the absent \<^verbatim>\<open>database.py\<close> (section
  4.1: serializes the record, inserts it into the named collection, returns the newly
  generated identifier as a string; fails when no live connection exists or on any
  underlying failure).
\<close>

definition create_document ::
  "string \<Rightarrow> model \<Rightarrow> world \<Rightarrow> (exn + string) \<times> world" where
  "create_document collection_name data w =
     (let w = w\<lparr>trace := trace w @ [CreateDocument collection_name data]\<rparr> in
      case db w of
        None \<Rightarrow> (Inl (Exception (unavailable_text w)), w)
      | Some d \<Rightarrow>
          (case db_fault d of
             Some m \<Rightarrow> (Inl (Exception m), w)
           | None \<Rightarrow>
               (let new_id = str_nat (db_next_id d);
                    docs = find_collection d collection_name @ [(new_id, model_dump data)];
                    d = d\<lparr>db_data := AList.update collection_name docs (db_data d),
                           db_next_id := Suc (db_next_id d)\<rparr>
                in (Inr new_id, w\<lparr>db := Some d\<rparr>))))"

section \<open>The handlers of \<^verbatim>\<open>src/main.py\<close>\<close>

subsection \<open>\<^verbatim>\<open>recommend\<close> and \<^verbatim>\<open>quiz\<close>\<close>

record recommend_result =
  matches :: "pydict list"
  spirit_message :: string

text \<open>
  Lines 134 to 140, the filter \<^verbatim>\<open>q\<close>. \<^verbatim>\<open>if pref.preferred_nature:\<close> and
  \<^verbatim>\<open>if pref.duration:\<close> test truthiness (\<^verbatim>\<open>None\<close>, the empty string and \<^verbatim>\<open>0\<close> are
  false); \<^verbatim>\<open>if pref.budget is not None:\<close> tests presence.
\<close>

definition recommend_q :: "QuizInput \<Rightarrow> pydict" where
  "recommend_q pref =
     (let q = [];
          q = (case preferred_nature pref of
                 None \<Rightarrow> q
               | Some s \<Rightarrow> if s \<noteq> [] then AList.update ''nature_type'' (PStr s) q else q);
          q = (case duration pref of
                 None \<Rightarrow> q
               | Some n \<Rightarrow>
                   if n \<noteq> 0 then AList.update ''duration_days'' (PDict [(''$lte'', PInt n)]) q
                   else q);
          q = (case budget pref of
                 None \<Rightarrow> q
               | Some b \<Rightarrow> AList.update ''price_usd'' (PDict [(''$lte'', PFloat b)]) q)
      in q)"

text \<open>
  Lines 145 to 155, the guidance text \<^verbatim>\<open>spirit_note\<close>. The text of the last branch has
  a right single quotation mark (U+2019) in \<^verbatim>\<open>I'll\<close>.
\<close>

definition fallback_note :: string where
  "fallback_note =
     ''Nature listens. Share more, and I'' @ [CHR 0xE2, CHR 0x80, CHR 0x99]
       @ ''ll guide you further.''"

definition spirit_note :: "QuizInput \<Rightarrow> string" where
  "spirit_note pref =
     (if energy pref = Some ''calm'' then
        ''The waters are still today; gentle breath and soft horizons call you.''
      else if energy pref = Some ''transformative'' then
        ''Winds of change swirl around you; trust the metamorphosis.''
      else if energy pref = Some ''adventurous'' then
        ''Peaks and tides await; your courage is the compass.''
      else if energy pref = Some ''restorative'' then
        ''Let the earth hold you; sleep, nourish, and renew.''
      else fallback_note)"

definition recommend :: "QuizInput \<Rightarrow> world \<Rightarrow> (exn + recommend_result) \<times> world" where
  "recommend pref w =
     (case get_documents ''retreat'' (recommend_q pref) (Some 8) w of
        (Inl e, w') \<Rightarrow> (Inl (HTTPException 500 (str_exn e)), w')
      | (Inr retreats, w') \<Rightarrow>
          (Inr \<lparr>matches = retreats, spirit_message = spirit_note pref\<rparr>, w'))"

text \<open>
  \<^verbatim>\<open>recommend(QuizInput(**pref.model_dump()))\<close>: the five fields of the \<open>Preference\<close>
  become the keyword arguments of the same names. \<open>recommend\<close> raises an
  \<open>HTTPException\<close>, which is an \<^verbatim>\<open>Exception\<close>, so the handler of \<open>quiz\<close> catches it and
  raises its own.
\<close>

definition quiz :: "Preference \<Rightarrow> world \<Rightarrow> (exn + recommend_result) \<times> world" where
  "quiz pref w =
     (case recommend \<lparr>energy = Preference.energy pref,
                      preferred_nature = Preference.preferred_nature pref,
                      budget = Preference.budget pref,
                      duration = Preference.duration pref,
                      goals = Preference.goals pref\<rparr> w of
        (Inl e, w') \<Rightarrow> (Inl (HTTPException 500 (str_exn e)), w')
      | (Inr r, w') \<Rightarrow> (Inr r, w'))"

subsection \<open>The create and list handlers\<close>

record created =
  id' :: string
  status :: string

definition created_by :: "(exn + string) \<times> world \<Rightarrow> (exn + created) \<times> world" where
  "created_by res =
     (case res of
        (Inl e, w') \<Rightarrow> (Inl (HTTPException 500 (str_exn e)), w')
      | (Inr i, w') \<Rightarrow> (Inr \<lparr>id' = i, status = ''created''\<rparr>, w'))"

definition listed_by :: "(exn + pydict list) \<times> world \<Rightarrow> (exn + pydict list) \<times> world" where
  "listed_by res =
     (case res of
        (Inl e, w') \<Rightarrow> (Inl (HTTPException 500 (str_exn e)), w')
      | (Inr docs, w') \<Rightarrow> (Inr docs, w'))"

definition create_host :: "Host \<Rightarrow> world \<Rightarrow> (exn + created) \<times> world" where
  "create_host host w = created_by (create_document ''host'' (HostM host) w)"

definition list_hosts :: "world \<Rightarrow> (exn + pydict list) \<times> world" where
  "list_hosts w = listed_by (get_documents ''host'' [] None w)"

definition create_location :: "Location \<Rightarrow> world \<Rightarrow> (exn + created) \<times> world" where
  "create_location loc w = created_by (create_document ''location'' (LocationM loc) w)"

definition list_locations :: "world \<Rightarrow> (exn + pydict list) \<times> world" where
  "list_locations w = listed_by (get_documents ''location'' [] None w)"

definition create_retreat :: "Retreat \<Rightarrow> world \<Rightarrow> (exn + created) \<times> world" where
  "create_retreat retreat w = created_by (create_document ''retreat'' (RetreatM retreat) w)"

text \<open>
  \<^verbatim>\<open>filter_q = {"nature_type": nature_type} if nature_type else {}\<close>: truthiness again,
  so \<^verbatim>\<open>None\<close> and the empty string both give the empty filter.
\<close>

definition list_retreats :: "string option \<Rightarrow> world \<Rightarrow> (exn + pydict list) \<times> world" where
  "list_retreats nature_type' w =
     (let filter_q = (case nature_type' of
                        None \<Rightarrow> []
                      | Some s \<Rightarrow> if s \<noteq> [] then [(''nature_type'', PStr s)] else [])
      in listed_by (get_documents ''retreat'' filter_q None w))"

definition create_message :: "Message \<Rightarrow> world \<Rightarrow> (exn + created) \<times> world" where
  "create_message message w = created_by (create_document ''message'' (MessageM message) w)"

definition list_messages :: "string option \<Rightarrow> world \<Rightarrow> (exn + pydict list) \<times> world" where
  "list_messages topic' w =
     (let filter_q = (case topic' of
                        None \<Rightarrow> []
                      | Some s \<Rightarrow> if s \<noteq> [] then [(''topic'', PStr s)] else [])
      in listed_by (get_documents ''message'' filter_q None w))"

subsection \<open>\<^verbatim>\<open>read_root\<close> and \<^verbatim>\<open>test_database\<close>\<close>

definition read_root :: pydict where
  "read_root = [(''message'', PStr ''The Sanctuary of Nature Backend is alive'')]"

definition check_mark :: string where
  "check_mark = [CHR 0xE2, CHR 0x9C, CHR 0x85]"

definition cross_mark :: string where
  "cross_mark = [CHR 0xE2, CHR 0x9D, CHR 0x8C]"

definition warning_sign :: string where
  "warning_sign = [CHR 0xE2, CHR 0x9A, CHR 0xA0, CHR 0xEF, CHR 0xB8, CHR 0x8F]"

text \<open>
  \<^verbatim>\<open>"..Set" if os.getenv(k) else "..Not Set"\<close>: an unset variable and an empty one are
  both false.
\<close>

definition set_or_not :: "world \<Rightarrow> string \<Rightarrow> pyval" where
  "set_or_not w k =
     (case environ w k of
        None \<Rightarrow> PStr (cross_mark @ '' Not Set'')
      | Some v \<Rightarrow> if v \<noteq> [] then PStr (check_mark @ '' Set'') else PStr (cross_mark @ '' Not Set''))"

text \<open>
  \<^verbatim>\<open>db.list_collection_names()\<close>, a method of the handle: the names of the collections,
  or the handle's failure.
\<close>

definition list_collection_names :: "Database \<Rightarrow> world \<Rightarrow> (exn + string list) \<times> world" where
  "list_collection_names d w =
     (let w = w\<lparr>trace := trace w @ [ListCollectionNames]\<rparr> in
      case db_fault d of
        Some m \<Rightarrow> (Inl (Exception m), w)
      | None \<Rightarrow> (Inr (map fst (db_data d)), w))"

text \<open>
  Lines 36 to 48, the body of the outer \<^verbatim>\<open>try\<close>. The response dictionary is mutated in
  place, so the body gives back the dictionary as it stands together with the exception
  that left it, if one did. The attribute \<^verbatim>\<open>db.name\<close> is the one place that can raise
  outside the inner \<^verbatim>\<open>try\<close>.
\<close>

definition test_database_body :: "pydict \<Rightarrow> world \<Rightarrow> (exn option \<times> pydict) \<times> world" where
  "test_database_body response w =
     (case db w of
        None \<Rightarrow>
          ((None, AList.update ''database''
                    (PStr (warning_sign @ ''  Available but not initialized'')) response), w)
      | Some d \<Rightarrow>
          (let response = AList.update ''database'' (PStr (check_mark @ '' Available'')) response;
               response = AList.update ''database_url'' (set_or_not w ''DATABASE_URL'') response
           in case db_name d of
                Raising m \<Rightarrow> ((Some (Exception m), response), w)
              | a \<Rightarrow>
                  (let response = AList.update ''database_name''
                         (case a of Attr n \<Rightarrow> PStr n | _ \<Rightarrow> PStr ''Unknown'') response;
                       response = AList.update ''connection_status'' (PStr ''Connected'') response
                   in case list_collection_names d w of
                        (Inr cs, w') \<Rightarrow>
                          (let response = AList.update ''collections''
                                 (PList (map PStr (take 10 cs))) response;
                               response = AList.update ''database''
                                 (PStr (check_mark @ '' Connected & Working'')) response
                           in ((None, response), w'))
                      | (Inl e, w') \<Rightarrow>
                          ((None, AList.update ''database''
                                    (PStr (warning_sign @ ''  Connected but Error: ''
                                             @ take 80 (str_exn e))) response), w'))))"

definition test_database :: "world \<Rightarrow> (exn + pydict) \<times> world" where
  "test_database w =
     (let response =
            [(''backend'', PStr (check_mark @ '' Running'')),
             (''database'', PStr (cross_mark @ '' Not Available'')),
             (''database_url'', PNone),
             (''database_name'', PNone),
             (''connection_status'', PStr ''Not Connected''),
             (''collections'', PList [])]
      in case test_database_body response w of
           ((raised, response), w') \<Rightarrow>
             (let response =
                    (case raised of
                       None \<Rightarrow> response
                     | Some e \<Rightarrow>
                         AList.update ''database''
                           (PStr (cross_mark @ '' Error: '' @ take 100 (str_exn e))) response);
                  response = AList.update ''database_url'' (set_or_not w ''DATABASE_URL'') response;
                  response = AList.update ''database_name'' (set_or_not w ''DATABASE_NAME'') response
              in (Inr response, w')))"

subsection \<open>The routes\<close>

text \<open>
  The decorators \<^verbatim>\<open>@app.get\<close> and \<^verbatim>\<open>@app.post\<close> bind each handler to its route. A
  request body is validated against the handler's schema before the handler runs; a
  body that fails is answered without calling the handler. Bodies here are well typed
  with every required field present, so only the range constraints of \<open>Retreat\<close> can
  fail.
\<close>

datatype request =
    GetRoot
  | GetTest
  | PostHosts Host
  | GetHosts
  | PostLocations Location
  | GetLocations
  | PostRetreats Retreat
  | GetRetreats "string option"
  | PostMessages Message
  | GetMessages "string option"
  | PostRecommend QuizInput
  | PostQuiz Preference

datatype response =
    Body pydict
  | Created created
  | Documents "pydict list"
  | Recommendation recommend_result

datatype reply = ValidationError | Handled "exn + response"

definition handled :: "('a \<Rightarrow> response) \<Rightarrow> (exn + 'a) \<times> world \<Rightarrow> reply \<times> world" where
  "handled f res = (Handled (map_sum (\<lambda>e. e) f (fst res)), snd res)"

fun serve :: "request \<Rightarrow> world \<Rightarrow> reply \<times> world" where
  "serve GetRoot w = (Handled (Inr (Body read_root)), w)"
| "serve GetTest w = handled Body (test_database w)"
| "serve (PostHosts h) w = handled Created (create_host h w)"
| "serve GetHosts w = handled Documents (list_hosts w)"
| "serve (PostLocations l) w = handled Created (create_location l w)"
| "serve GetLocations w = handled Documents (list_locations w)"
| "serve (PostRetreats r) w =
     (if Retreat_fields_ok r then handled Created (create_retreat r w)
      else (ValidationError, w))"
| "serve (GetRetreats nature_type') w = handled Documents (list_retreats nature_type' w)"
| "serve (PostMessages m) w = handled Created (create_message m w)"
| "serve (GetMessages topic') w = handled Documents (list_messages topic' w)"
| "serve (PostRecommend pref) w = handled Recommendation (recommend pref w)"
| "serve (PostQuiz pref) w = handled Recommendation (quiz pref w)"

fun serve_all :: "request list \<Rightarrow> world \<Rightarrow> world" where
  "serve_all [] w = w"
| "serve_all (rq # rqs) w = serve_all rqs (snd (serve rq w))"

text \<open>The stored documents of a collection, with their identifiers.\<close>

definition stored :: "world \<Rightarrow> string \<Rightarrow> (string \<times> pydict) list" where
  "stored w c = (case db w of None \<Rightarrow> [] | Some d \<Rightarrow> find_collection d c)"

subsection \<open>Example states\<close>

definition no_db :: world where
  "no_db = \<lparr>db = None, environ = Map.empty, default_limit = 100,
            unavailable_text = ''Database not available'', trace = []\<rparr>"

definition forest_retreat :: Retreat where
  "forest_retreat =
     \<lparr>title = ''Pines'', description = None, host_name = ''Ana'', location_title = ''Grove'',
      nature_type = ''forest'', focus = [], duration_days = 7, price_usd = 900,
      start_date = None, image_url = None\<rparr>"

definition live_db :: world where
  "live_db =
     \<lparr>db = Some \<lparr>db_name = Attr ''sanctuary'', db_fault = None,
                  db_data = [(''retreat'',
                     [(''0'', model_dump (RetreatM forest_retreat)),
                      (''1'', model_dump (RetreatM (forest_retreat\<lparr>nature_type := ''Forest''\<rparr>))),
                      (''2'', model_dump (RetreatM (forest_retreat\<lparr>nature_type := ''forestry''\<rparr>)))])],
                  db_next_id = 3\<rparr>,
      environ = Map.empty, default_limit = 100,
      unavailable_text = ''Database not available'', trace = []\<rparr>"

section \<open>Properties\<close>

lemma trace_get_documents:
  "trace (snd (get_documents c q l w)) = trace w @ [GetDocuments c q l]"
  by (simp add: get_documents_def Let_def split: option.split)

lemma trace_recommend:
  "trace (snd (recommend pref w)) = trace w @ [GetDocuments ''retreat'' (recommend_q pref) (Some 8)]"
proof -
  have "snd (recommend pref w) = snd (get_documents ''retreat'' (recommend_q pref) (Some 8) w)"
    by (simp add: recommend_def split: prod.split sum.split)
  then show ?thesis
    by (simp add: trace_get_documents)
qed

text \<open>
  Claim C2. Called with a budget of \<open>0\<close>, \<open>recommend\<close> makes exactly one storage call, a
  query of the retreat collection whose filter holds for \<open>price_usd\<close> the constraint
  at-most \<open>0\<close>: a zero budget is a present budget.
\<close>

theorem recommend_zero_budget:
  "\<exists>q. trace (snd (recommend (pref\<lparr>budget := Some 0\<rparr>) w))
         = trace w @ [GetDocuments ''retreat'' q (Some 8)]
       \<and> map_of q ''price_usd'' = Some (PDict [(''$lte'', PFloat 0)])"
proof -
  have "map_of (recommend_q (pref\<lparr>budget := Some 0\<rparr>)) ''price_usd''
          = Some (PDict [(''$lte'', PFloat 0)])"
    by (simp add: recommend_q_def Let_def update_conv' split: option.split)
  then show ?thesis
    using trace_recommend by blast
qed

lemma recommend_q_nature:
  "map_of (recommend_q pref) ''nature_type'' =
     (case preferred_nature pref of None \<Rightarrow> None
      | Some s \<Rightarrow> if s = [] then None else Some (PStr s))"
  by (simp add: recommend_q_def Let_def update_conv' split: option.split)

lemma recommend_q_duration:
  "map_of (recommend_q pref) ''duration_days'' =
     (case duration pref of None \<Rightarrow> None
      | Some n \<Rightarrow> if n = 0 then None else Some (PDict [(''$lte'', PInt n)]))"
  by (simp add: recommend_q_def Let_def update_conv' split: option.split)

lemma recommend_q_price:
  "map_of (recommend_q pref) ''price_usd'' =
     (case budget pref of None \<Rightarrow> None
      | Some b \<Rightarrow> Some (PDict [(''$lte'', PFloat b)]))"
  by (simp add: recommend_q_def Let_def update_conv' split: option.split)

lemma recommend_q_keys:
  "fst ` set (recommend_q pref) \<subseteq> {''nature_type'', ''duration_days'', ''price_usd''}"
  by (auto simp add: recommend_q_def Let_def split: option.split if_splits)

text \<open>
  Claim C1, as stated, fails: a \<open>preferred_nature\<close> that is present but empty, and a
  \<open>duration\<close> that is present but \<open>0\<close>, add no constraint. The query issued for such a
  preference has the empty filter.
\<close>

theorem recommend_presence_counterexample:
  "preferred_nature \<lparr>energy = None, preferred_nature = Some '''', budget = None,
                      duration = Some 0, goals = None\<rparr> \<noteq> None
   \<and> duration \<lparr>energy = None, preferred_nature = Some '''', budget = None,
                duration = Some 0, goals = None\<rparr> \<noteq> None
   \<and> trace (snd (recommend \<lparr>energy = None, preferred_nature = Some '''', budget = None,
                             duration = Some 0, goals = None\<rparr> live_db))
       = [GetDocuments ''retreat'' [] (Some 8)]"
  by (simp add: trace_recommend recommend_q_def live_db_def)

text \<open>
  Claim C1, amended. For every preference, \<open>recommend\<close> makes exactly one storage call, a
  query of the retreat collection capped at 8 results, whose filter has an exact-match
  constraint on \<open>nature_type\<close> if and only if \<open>preferred_nature\<close> is present and not the
  empty string, an at-most constraint on \<open>duration_days\<close> if and only if \<open>duration\<close> is
  present and not \<open>0\<close>, an at-most constraint on \<open>price_usd\<close> if and only if \<open>budget\<close> is
  present, and no constraint on any other field.
\<close>

theorem recommend_query_amended:
  "\<exists>q. trace (snd (recommend pref w)) = trace w @ [GetDocuments ''retreat'' q (Some 8)]
     \<and> map_of q ''nature_type'' =
         (case preferred_nature pref of None \<Rightarrow> None
          | Some s \<Rightarrow> if s = [] then None else Some (PStr s))
     \<and> map_of q ''duration_days'' =
         (case duration pref of None \<Rightarrow> None
          | Some n \<Rightarrow> if n = 0 then None else Some (PDict [(''$lte'', PInt n)]))
     \<and> map_of q ''price_usd'' =
         (case budget pref of None \<Rightarrow> None
          | Some b \<Rightarrow> Some (PDict [(''$lte'', PFloat b)]))
     \<and> fst ` set q \<subseteq> {''nature_type'', ''duration_days'', ''price_usd''}"
  using trace_recommend recommend_q_nature recommend_q_duration recommend_q_price
    recommend_q_keys by blast

text \<open>
  Claim C3. For every preference record and every state, \<open>quiz\<close> returns a result exactly
  when \<open>recommend\<close>, applied to the \<open>QuizInput\<close> with the same five fields, returns one,
  the two results are the same (same matches, same spirit message), and both leave the
  same state behind.
\<close>

theorem quiz_same_as_recommend:
  "returned (fst (quiz pref w)) =
     returned (fst (recommend \<lparr>energy = Preference.energy pref,
                               preferred_nature = Preference.preferred_nature pref,
                               budget = Preference.budget pref,
                               duration = Preference.duration pref,
                               goals = Preference.goals pref\<rparr> w))
   \<and> snd (quiz pref w) =
     snd (recommend \<lparr>energy = Preference.energy pref,
                      preferred_nature = Preference.preferred_nature pref,
                      budget = Preference.budget pref,
                      duration = Preference.duration pref,
                      goals = Preference.goals pref\<rparr> w)"
  by (simp add: quiz_def split: prod.split sum.split)

text \<open>
  When \<open>recommend\<close> raises, \<open>quiz\<close> raises too, with the status code 500; its detail is the
  text of the exception it caught.
\<close>

lemma quiz_when_recommend_raises:
  assumes "fst (recommend \<lparr>energy = Preference.energy pref,
                      preferred_nature = Preference.preferred_nature pref,
                      budget = Preference.budget pref,
                      duration = Preference.duration pref,
                      goals = Preference.goals pref\<rparr> w) = Inl (HTTPException 500 m)"
  shows "fst (quiz pref w) = Inl (HTTPException 500 (''500: '' @ m))"
proof -
  have "str_exn (HTTPException 500 m) = ''500: '' @ m"
    by simp
  with assms show ?thesis
    by (simp add: quiz_def case_prod_beta del: str_exn.simps)
qed

text \<open>
  Claim C5. Two preference inputs that agree on \<open>energy\<close>, \<open>preferred_nature\<close>, \<open>budget\<close>
  and \<open>duration\<close> get, in the same state, the same result and the same state afterwards
  (so the same query is issued), whatever their \<open>goals\<close>.
\<close>

theorem recommend_ignores_goals:
  fixes p1 p2 :: QuizInput
  assumes "energy p1 = energy p2" and "preferred_nature p1 = preferred_nature p2"
    and "budget p1 = budget p2" and "duration p1 = duration p2"
  shows "recommend p1 w = recommend p2 w"
proof -
  have "recommend_q p1 = recommend_q p2"
    using assms by (simp add: recommend_q_def)
  moreover have "spirit_note p1 = spirit_note p2"
    using assms by (simp add: spirit_note_def)
  ultimately show ?thesis
    unfolding recommend_def by (simp only:)
qed

theorem recommend_ignores_goals_witness:
  "recommend \<lparr>energy = Some ''calm'', preferred_nature = Some ''forest'',
              budget = Some 1000, duration = Some 10, goals = Some ''rest''\<rparr> live_db
   = recommend \<lparr>energy = Some ''calm'', preferred_nature = Some ''forest'',
                budget = Some 1000, duration = Some 10, goals = None\<rparr> live_db
   \<and> fst (recommend \<lparr>energy = Some ''calm'', preferred_nature = Some ''forest'',
                     budget = Some 1000, duration = Some 10, goals = Some ''rest''\<rparr> live_db)
     = Inr \<lparr>matches = [model_dump (RetreatM forest_retreat)],
            spirit_message =
              ''The waters are still today; gentle breath and soft horizons call you.''\<rparr>"
  using recommend_ignores_goals
    [of "\<lparr>energy = Some ''calm'', preferred_nature = Some ''forest'',
          budget = Some 1000, duration = Some 10, goals = Some ''rest''\<rparr>"
        "\<lparr>energy = Some ''calm'', preferred_nature = Some ''forest'',
          budget = Some 1000, duration = Some 10, goals = None\<rparr>" live_db]
  by (simp add: recommend_def get_documents_def recommend_q_def spirit_note_def live_db_def
      Let_def find_collection_def doc_matches_def forest_retreat_def opt_str_def
      str_list_def holds_op_def at_most_def)

lemma returned_recommend:
  "returned (fst (recommend pref w)) = Some r \<Longrightarrow> spirit_message r = spirit_note pref"
  by (auto simp add: recommend_def split: prod.splits sum.splits)

text \<open>
  Claim C4. Whenever \<open>recommend\<close> returns, its spirit message is chosen by exact match
  of \<open>energy\<close> against the four keys \<open>calm\<close>, \<open>transformative\<close>, \<open>adventurous\<close> and
  \<open>restorative\<close>: \<open>calm\<close> gives the fixed text about still waters, each other key its
  own text, and every value outside the four keys, absent included, gives the one
  fallback text.
\<close>

theorem recommend_spirit_message:
  assumes "returned (fst (recommend pref w)) = Some r"
  shows "(energy pref = Some ''calm'' \<longrightarrow> spirit_message r =
            ''The waters are still today; gentle breath and soft horizons call you.'')
       \<and> (energy pref = Some ''transformative'' \<longrightarrow> spirit_message r =
            ''Winds of change swirl around you; trust the metamorphosis.'')
       \<and> (energy pref = Some ''adventurous'' \<longrightarrow> spirit_message r =
            ''Peaks and tides await; your courage is the compass.'')
       \<and> (energy pref = Some ''restorative'' \<longrightarrow> spirit_message r =
            ''Let the earth hold you; sleep, nourish, and renew.'')
       \<and> (energy pref \<notin> {Some ''calm'', Some ''transformative'', Some ''adventurous'',
                           Some ''restorative''} \<longrightarrow> spirit_message r = fallback_note)"
  using returned_recommend [OF assms] by (simp add: spirit_note_def)

theorem recommend_spirit_message_witness:
  "returned (fst (recommend \<lparr>energy = Some ''calm'', preferred_nature = None,
       budget = Some 0, duration = None, goals = None\<rparr> live_db)) =
     Some \<lparr>matches = [], spirit_message =
            ''The waters are still today; gentle breath and soft horizons call you.''\<rparr>
   \<and> returned (fst (recommend \<lparr>energy = Some ''Calm'', preferred_nature = None,
       budget = Some 0, duration = None, goals = None\<rparr> live_db)) =
     Some \<lparr>matches = [], spirit_message = fallback_note\<rparr>
   \<and> returned (fst (recommend \<lparr>energy = None, preferred_nature = None,
       budget = Some 0, duration = None, goals = None\<rparr> live_db)) =
     Some \<lparr>matches = [], spirit_message = fallback_note\<rparr>"
proof -
  have c: "returned (fst (recommend \<lparr>energy = e, preferred_nature = None, budget = Some 0,
       duration = None, goals = None\<rparr> live_db)) =
     Some \<lparr>matches = [], spirit_message = spirit_note \<lparr>energy = e, preferred_nature = None,
       budget = Some 0, duration = None, goals = None\<rparr>\<rparr>" for e
    by (simp add: recommend_def get_documents_def recommend_q_def live_db_def
      Let_def find_collection_def doc_matches_def forest_retreat_def opt_str_def
      str_list_def holds_op_def at_most_def)
  show ?thesis
    using recommend_spirit_message [OF c [of "Some ''calm''"]]
      recommend_spirit_message [OF c [of "Some ''Calm''"]]
      recommend_spirit_message [OF c [of "None"]]
    by (simp add: c)
qed

lemma snd_created_by: "snd (created_by res) = snd res"
  by (simp add: created_by_def split: prod.split sum.split)

lemma snd_listed_by: "snd (listed_by res) = snd res"
  by (simp add: listed_by_def split: prod.split sum.split)

lemma returned_listed_by: "returned (fst (listed_by res)) = returned (fst res)"
  by (simp add: listed_by_def split: prod.split sum.split)

lemma trace_create_document:
  "trace (snd (create_document c m w)) = trace w @ [CreateDocument c m]"
  by (simp add: create_document_def Let_def split: option.split)

text \<open>
  Claim C6. A retreat-creation request whose \<open>duration_days\<close> is below 1 or above 60, or
  whose \<open>price_usd\<close> is negative, is answered with a validation error and the state is
  untouched: no storage call is made and no document is inserted. A request with
  \<open>duration_days\<close> from 1 to 60 and \<open>price_usd\<close> at least 0 passes validation, the
  handler \<open>create_retreat\<close> runs, and it calls \<open>create_document\<close> on the retreat
  collection with that retreat.
\<close>

theorem create_retreat_validated:
  "((duration_days r < 1 \<or> 60 < duration_days r \<or> price_usd r < 0) \<longrightarrow>
       serve (PostRetreats r) w = (ValidationError, w))
   \<and> ((1 \<le> duration_days r \<and> duration_days r \<le> 60 \<and> 0 \<le> price_usd r) \<longrightarrow>
       serve (PostRetreats r) w = handled Created (create_retreat r w)
       \<and> trace (snd (serve (PostRetreats r) w)) = trace w @ [CreateDocument ''retreat'' (RetreatM r)])"
  by (auto simp add: Retreat_fields_ok_def handled_def create_retreat_def snd_created_by
      trace_create_document)

theorem create_retreat_validated_witness:
  "serve (PostRetreats (forest_retreat\<lparr>duration_days := 0\<rparr>)) live_db = (ValidationError, live_db)
   \<and> serve (PostRetreats (forest_retreat\<lparr>duration_days := 61\<rparr>)) live_db = (ValidationError, live_db)
   \<and> serve (PostRetreats (forest_retreat\<lparr>price_usd := - 1\<rparr>)) live_db = (ValidationError, live_db)
   \<and> trace (snd (serve (PostRetreats forest_retreat) live_db))
       = trace live_db @ [CreateDocument ''retreat'' (RetreatM forest_retreat)]
   \<and> fst (serve (PostRetreats forest_retreat) live_db)
       = Handled (Inr (Created \<lparr>id' = ''3'', status = ''created''\<rparr>))"
proof -
  have ok: "1 \<le> duration_days forest_retreat \<and> duration_days forest_retreat \<le> 60
      \<and> 0 \<le> price_usd forest_retreat"
    by (simp add: forest_retreat_def)
  have run: "fst (handled Created (create_retreat forest_retreat live_db))
          = Handled (Inr (Created \<lparr>id' = ''3'', status = ''created''\<rparr>))"
    by (simp add: handled_def create_retreat_def created_by_def create_document_def
        live_db_def Let_def)
  have "serve (PostRetreats (forest_retreat\<lparr>duration_days := 0\<rparr>)) live_db
          = (ValidationError, live_db)"
    using create_retreat_validated [of "forest_retreat\<lparr>duration_days := 0\<rparr>" live_db]
    by simp
  moreover have "serve (PostRetreats (forest_retreat\<lparr>duration_days := 61\<rparr>)) live_db
          = (ValidationError, live_db)"
    using create_retreat_validated [of "forest_retreat\<lparr>duration_days := 61\<rparr>" live_db]
    by simp
  moreover have "serve (PostRetreats (forest_retreat\<lparr>price_usd := - 1\<rparr>)) live_db
          = (ValidationError, live_db)"
    using create_retreat_validated [of "forest_retreat\<lparr>price_usd := - 1\<rparr>" live_db]
    by simp
  moreover have "serve (PostRetreats forest_retreat) live_db
          = handled Created (create_retreat forest_retreat live_db)
      \<and> trace (snd (serve (PostRetreats forest_retreat) live_db))
          = trace live_db @ [CreateDocument ''retreat'' (RetreatM forest_retreat)]"
    using create_retreat_validated [of forest_retreat live_db] ok by blast
  ultimately show ?thesis
    using run by (auto simp del: serve.simps)
qed

lemma get_documents_matching:
  "returned (fst (get_documents c q l w)) = Some docs \<Longrightarrow> doc \<in> set docs \<Longrightarrow> doc_matches q doc"
  by (auto simp add: get_documents_def Let_def split: option.splits dest!: in_set_takeD)

lemma doc_matches_exact:
  "doc_matches [(k, PStr v)] doc \<longleftrightarrow> map_of doc k = Some (PStr v)"
  by (cases "map_of doc k") (auto simp add: doc_matches_def)

text \<open>
  Claim C7. For a non-empty \<open>nature_type\<close> parameter \<open>v\<close>, \<open>list_retreats\<close> queries the
  retreat collection with the filter \<open>{nature_type: v}\<close>, and every document it returns has
  a \<open>nature_type\<close> field equal to \<open>v\<close>; with no parameter the filter is empty.
\<close>

theorem list_retreats_filter:
  assumes "v \<noteq> []"
  shows "trace (snd (list_retreats (Some v) w))
           = trace w @ [GetDocuments ''retreat'' [(''nature_type'', PStr v)] None]
       \<and> (\<forall>docs. returned (fst (list_retreats (Some v) w)) = Some docs \<longrightarrow>
             (\<forall>doc \<in> set docs. map_of doc ''nature_type'' = Some (PStr v)))
       \<and> trace (snd (list_retreats None w)) = trace w @ [GetDocuments ''retreat'' [] None]"
  using assms
  by (auto simp add: list_retreats_def snd_listed_by returned_listed_by trace_get_documents
      doc_matches_exact dest: get_documents_matching)

theorem list_retreats_filter_witness:
  "''forest'' \<noteq> []
   \<and> fst (list_retreats (Some ''forest'') live_db) = Inr [model_dump (RetreatM forest_retreat)]
   \<and> trace (snd (list_retreats (Some ''forest'') live_db))
       = [GetDocuments ''retreat'' [(''nature_type'', PStr ''forest'')] None]
   \<and> trace (snd (list_retreats None live_db)) = [GetDocuments ''retreat'' [] None]"
proof -
  have r: "fst (list_retreats (Some ''forest'') live_db)
             = Inr [model_dump (RetreatM forest_retreat)]"
    by (simp add: list_retreats_def listed_by_def get_documents_def live_db_def
      Let_def find_collection_def doc_matches_def forest_retreat_def opt_str_def str_list_def)
  have t: "trace (snd (list_retreats (Some ''forest'') live_db))
             = trace live_db @ [GetDocuments ''retreat'' [(''nature_type'', PStr ''forest'')] None]
         \<and> trace (snd (list_retreats None live_db))
             = trace live_db @ [GetDocuments ''retreat'' [] None]"
    using list_retreats_filter [of "''forest''" live_db] by simp
  have e: "trace live_db = []"
    by (simp add: live_db_def)
  show ?thesis
    using r t e by simp
qed

text \<open>
  Claim C10. For \<open>list_retreats\<close> and \<open>list_messages\<close> a parameter that is the empty
  string behaves as an absent one: the same result and the same state, the query issued
  has the empty filter, and what is returned is the collection's documents up to the
  default cap, not the documents whose field is the empty string.
\<close>

theorem empty_parameter_is_absent:
  "list_retreats (Some '''') w = list_retreats None w
   \<and> list_messages (Some '''') w = list_messages None w
   \<and> trace (snd (list_retreats (Some '''') w)) = trace w @ [GetDocuments ''retreat'' [] None]
   \<and> trace (snd (list_messages (Some '''') w)) = trace w @ [GetDocuments ''message'' [] None]
   \<and> returned (fst (list_retreats (Some '''') w)) =
        (case db w of None \<Rightarrow> None
         | Some d \<Rightarrow> (case db_fault d of Some m \<Rightarrow> None
             | None \<Rightarrow> Some (take (default_limit w) (map snd (find_collection d ''retreat'')))))
   \<and> returned (fst (list_messages (Some '''') w)) =
        (case db w of None \<Rightarrow> None
         | Some d \<Rightarrow> (case db_fault d of Some m \<Rightarrow> None
             | None \<Rightarrow> Some (take (default_limit w) (map snd (find_collection d ''message'')))))"
  by (simp add: list_retreats_def list_messages_def snd_listed_by returned_listed_by
      trace_get_documents get_documents_def Let_def doc_matches_def split: option.split)

lemma test_database_body_keys:
  assumes "map fst response = [''backend'', ''database'', ''database_url'', ''database_name'',
     ''connection_status'', ''collections'']"
  shows "map fst (snd (fst (test_database_body response w))) = map fst response"
  using assms
  by (simp add: test_database_body_def Let_def update_keys
      split: option.split attr.split prod.split sum.split)

lemma test_database_body_collections:
  assumes "map_of response ''collections'' = Some (PList [])"
  shows "\<exists>cs. map_of (snd (fst (test_database_body response w))) ''collections''
            = Some (PList (map PStr cs)) \<and> length cs \<le> 10"
proof -
  have e: "\<exists>cs. Some (PList []) = Some (PList (map PStr cs)) \<and> length cs \<le> 10"
    by (rule exI [of _ "[]"]) simp
  have t: "\<exists>cs. Some (PList (map PStr (take 10 xs))) = Some (PList (map PStr cs)) \<and> length cs \<le> 10" for xs :: "string list"
    by (rule exI [of _ "take 10 xs"]) simp
  show ?thesis
    using assms e t
    by (simp add: test_database_body_def Let_def update_conv'
      split: option.split attr.split prod.split sum.split)
qed

text \<open>With no handle at all the answer is still the full dictionary.\<close>

lemma test_database_no_db:
  "fst (test_database no_db) =
     Inr [(''backend'', PStr (check_mark @ '' Running'')),
          (''database'', PStr (warning_sign @ ''  Available but not initialized'')),
          (''database_url'', PStr (cross_mark @ '' Not Set'')),
          (''database_name'', PStr (cross_mark @ '' Not Set'')),
          (''connection_status'', PStr ''Not Connected''),
          (''collections'', PList [])]"
  by (simp add: test_database_def test_database_body_def set_or_not_def no_db_def Let_def)

text \<open>
  Claim C8. \<open>test_database\<close> never raises: in every state, whether the handle is absent,
  its \<open>name\<close> attribute is missing or raises, or its calls fail, it returns a dictionary
  whose keys are exactly \<open>backend\<close>, \<open>database\<close>, \<open>database_url\<close>, \<open>database_name\<close>,
  \<open>connection_status\<close> and \<open>collections\<close>, the last a list of at most 10 names.
\<close>

theorem test_database_never_raises:
  "\<exists>response cs. fst (test_database w) = Inr response
     \<and> map fst response = [''backend'', ''database'', ''database_url'', ''database_name'',
          ''connection_status'', ''collections'']
     \<and> map_of response ''collections'' = Some (PList (map PStr cs)) \<and> length cs \<le> 10"
proof -
  let ?r0 = "[(''backend'', PStr (check_mark @ '' Running'')),
             (''database'', PStr (cross_mark @ '' Not Available'')),
             (''database_url'', PNone),
             (''database_name'', PNone),
             (''connection_status'', PStr ''Not Connected''),
             (''collections'', PList [])]"
  let ?b = "snd (fst (test_database_body ?r0 w))"
  have k: "map fst ?b = [''backend'', ''database'', ''database_url'', ''database_name'',
          ''connection_status'', ''collections'']"
    using test_database_body_keys [of ?r0 w] by simp
  obtain cs where c: "map_of ?b ''collections'' = Some (PList (map PStr cs))" "length cs \<le> 10"
    using test_database_body_collections [of ?r0 w] by auto
  let ?c = "case fst (fst (test_database_body ?r0 w)) of
               None \<Rightarrow> ?b
             | Some e \<Rightarrow>
                 AList.update ''database''
                   (PStr (cross_mark @ '' Error: '' @ take 100 (str_exn e))) ?b"
  let ?r = "AList.update ''database_name'' (set_or_not w ''DATABASE_NAME'')
              (AList.update ''database_url'' (set_or_not w ''DATABASE_URL'') ?c)"
  have r: "fst (test_database w) = Inr ?r"
    by (simp add: test_database_def Let_def case_prod_beta)
  have kc: "map fst ?c = map fst ?b"
    using k by (simp add: update_keys split: option.split)
  have cc: "map_of ?c ''collections'' = map_of ?b ''collections''"
    by (simp add: update_conv' split: option.split)
  have "map fst ?r = map fst ?b"
    using k kc by (simp add: update_keys)
  moreover have "map_of ?r ''collections'' = map_of ?b ''collections''"
    using cc by (simp add: update_conv')
  ultimately show ?thesis
    using r k c by auto
qed

lemma stored_db: "db w' = db w \<Longrightarrow> stored w' = stored w"
  by (simp add: stored_def fun_eq_iff)

lemma db_get_documents: "db (snd (get_documents c q l w)) = db w"
  by (simp add: get_documents_def Let_def split: option.split)

lemma db_recommend: "db (snd (recommend pref w)) = db w"
proof -
  have "snd (recommend pref w) = snd (get_documents ''retreat'' (recommend_q pref) (Some 8) w)"
    by (simp add: recommend_def split: prod.split sum.split)
  then show ?thesis
    by (simp add: db_get_documents)
qed

lemma db_quiz: "db (snd (quiz pref w)) = db w"
proof -
  have "snd (quiz pref w) =
      snd (recommend \<lparr>energy = Preference.energy pref,
                      preferred_nature = Preference.preferred_nature pref,
                      budget = Preference.budget pref,
                      duration = Preference.duration pref,
                      goals = Preference.goals pref\<rparr> w)"
    by (simp add: quiz_def split: prod.split sum.split)
  then show ?thesis
    by (simp add: db_recommend)
qed

lemma db_list_collection_names: "db (snd (list_collection_names d w)) = db w"
  by (simp add: list_collection_names_def Let_def split: option.split)

lemma db_test_database_body: "db (snd (test_database_body r w)) = db w"
  by (simp add: test_database_body_def Let_def case_prod_beta db_list_collection_names
      split: option.split attr.split sum.split)

lemma db_test_database: "db (snd (test_database w)) = db w"
  by (simp add: test_database_def Let_def case_prod_beta db_test_database_body)

lemma find_collection_update:
  "find_collection (d\<lparr>db_data := AList.update c docs (db_data d), db_next_id := n\<rparr>) c'
     = (if c' = c then docs else find_collection d c')"
  by (simp add: find_collection_def update_conv')

lemma stored_trace_update: "stored (w\<lparr>trace := t\<rparr>) = stored w"
  by (simp add: stored_def fun_eq_iff)

lemma stored_create_document:
  "stored (snd (create_document c m w)) = stored w
   \<or> (\<exists>doc. stored (snd (create_document c m w)) = (stored w)(c := stored w c @ [doc]))"
proof (cases "db w")
  case None
  then show ?thesis
    by (simp add: create_document_def Let_def stored_trace_update)
next
  case (Some d)
  show ?thesis
  proof (cases "db_fault d")
    case (Some m')
    with \<open>db w = Some d\<close> show ?thesis
      by (simp add: create_document_def Let_def stored_trace_update)
  next
    case None
    with \<open>db w = Some d\<close>
    have "stored (snd (create_document c m w))
            = (stored w)(c := stored w c @ [(str_nat (db_next_id d), model_dump m)])"
      by (simp add: create_document_def Let_def stored_def find_collection_update fun_eq_iff)
    then show ?thesis
      by blast
  qed
qed

lemma create_document_appends:
  assumes "db w = Some d" and "db_fault d = None"
  shows "stored (snd (create_document c m w))
           = (stored w)(c := stored w c @ [(str_nat (db_next_id d), model_dump m)])"
  using assms
  by (simp add: create_document_def Let_def stored_def find_collection_update fun_eq_iff)

lemma stored_after_create:
  assumes "snd (serve rq w) = snd (create_document c m w)"
  shows "stored (snd (serve rq w)) = stored w
   \<or> (\<exists>c doc. stored (snd (serve rq w)) = (stored w)(c := stored w c @ [doc]))"
proof -
  from stored_create_document [of c m w] show ?thesis
  proof
    assume "stored (snd (create_document c m w)) = stored w"
    then have "stored (snd (serve rq w)) = stored w"
      by (simp only: assms)
    then show ?thesis
      by (rule disjI1)
  next
    assume "\<exists>doc. stored (snd (create_document c m w)) = (stored w)(c := stored w c @ [doc])"
    then obtain doc
      where "stored (snd (create_document c m w)) = (stored w)(c := stored w c @ [doc])"
      by (rule exE)
    then have e: "stored (snd (serve rq w)) = (stored w)(c := stored w c @ [doc])"
      by (simp only: assms)
    show ?thesis
      apply (rule disjI2)
      apply (rule exI [of _ c])
      apply (rule exI [of _ doc])
      apply (rule e)
      done
  qed
qed

lemma stored_after_read:
  assumes "db (snd (serve rq w)) = db w"
  shows "stored (snd (serve rq w)) = stored w
   \<or> (\<exists>c doc. stored (snd (serve rq w)) = (stored w)(c := stored w c @ [doc]))"
  using stored_db [OF assms] by (rule disjI1)

lemma stored_serve:
  "stored (snd (serve rq w)) = stored w
   \<or> (\<exists>c doc. stored (snd (serve rq w)) = (stored w)(c := stored w c @ [doc]))"
proof (cases rq)
  case GetRoot
  then have "db (snd (serve rq w)) = db w"
    by simp
  then show ?thesis
    by (rule stored_after_read)
next
  case GetTest
  then have "db (snd (serve rq w)) = db w"
    by (simp add: handled_def db_test_database)
  then show ?thesis
    by (rule stored_after_read)
next
  case (PostHosts h)
  then have "snd (serve rq w) = snd (create_document ''host'' (HostM h) w)"
    by (simp add: handled_def create_host_def snd_created_by)
  then show ?thesis
    by (rule stored_after_create)
next
  case GetHosts
  then have "db (snd (serve rq w)) = db w"
    by (simp add: handled_def list_hosts_def snd_listed_by db_get_documents)
  then show ?thesis
    by (rule stored_after_read)
next
  case (PostLocations l)
  then have "snd (serve rq w) = snd (create_document ''location'' (LocationM l) w)"
    by (simp add: handled_def create_location_def snd_created_by)
  then show ?thesis
    by (rule stored_after_create)
next
  case GetLocations
  then have "db (snd (serve rq w)) = db w"
    by (simp add: handled_def list_locations_def snd_listed_by db_get_documents)
  then show ?thesis
    by (rule stored_after_read)
next
  case (PostRetreats r)
  show ?thesis
  proof (cases "Retreat_fields_ok r")
    case True
    with PostRetreats
    have "snd (serve rq w) = snd (create_document ''retreat'' (RetreatM r) w)"
      by (simp add: handled_def create_retreat_def snd_created_by)
    then show ?thesis
      by (rule stored_after_create)
  next
    case False
    with PostRetreats have "db (snd (serve rq w)) = db w"
      by simp
    then show ?thesis
      by (rule stored_after_read)
  qed
next
  case (GetRetreats v)
  then have "db (snd (serve rq w)) = db w"
    by (simp add: handled_def list_retreats_def snd_listed_by db_get_documents)
  then show ?thesis
    by (rule stored_after_read)
next
  case (PostMessages m)
  then have "snd (serve rq w) = snd (create_document ''message'' (MessageM m) w)"
    by (simp add: handled_def create_message_def snd_created_by)
  then show ?thesis
    by (rule stored_after_create)
next
  case (GetMessages v)
  then have "db (snd (serve rq w)) = db w"
    by (simp add: handled_def list_messages_def snd_listed_by db_get_documents)
  then show ?thesis
    by (rule stored_after_read)
next
  case (PostRecommend p)
  then have "db (snd (serve rq w)) = db w"
    by (simp add: handled_def db_recommend)
  then show ?thesis
    by (rule stored_after_read)
next
  case (PostQuiz p)
  then have "db (snd (serve rq w)) = db w"
    by (simp add: handled_def db_quiz)
  then show ?thesis
    by (rule stored_after_read)
qed

lemma prefix_serve: "prefix (stored w c) (stored (snd (serve rq w)) c)"
proof -
  from stored_serve [of rq w] show ?thesis
  proof
    assume "stored (snd (serve rq w)) = stored w"
    then show ?thesis by simp
  next
    assume "\<exists>c doc. stored (snd (serve rq w)) = (stored w)(c := stored w c @ [doc])"
    then obtain c' doc where "stored (snd (serve rq w)) = (stored w)(c' := stored w c' @ [doc])"
      by blast
    then show ?thesis by simp
  qed
qed

lemma prefix_serve_all: "prefix (stored w c) (stored (serve_all rqs w) c)"
proof (induction rqs arbitrary: w)
  case Nil
  show ?case by simp
next
  case (Cons rq rqs)
  have "prefix (stored w c) (stored (snd (serve rq w)) c)"
    by (rule prefix_serve)
  also have "prefix (stored (snd (serve rq w)) c) (stored (serve_all rqs (snd (serve rq w))) c)"
    by (rule Cons.IH)
  finally show ?case by simp
qed

text \<open>
  Claim C9. Every request leaves the stored documents of every collection as they are,
  or appends exactly one document to one collection and leaves the rest as they are: no
  request changes or removes a stored document. So after any sequence of requests the
  documents a collection held before are still there, unchanged and in place, as a
  prefix of what it holds after.
\<close>

theorem stored_documents_immutable:
  "(stored (snd (serve rq w)) = stored w
     \<or> (\<exists>c doc. stored (snd (serve rq w)) = (stored w)(c := stored w c @ [doc])))
   \<and> prefix (stored w c) (stored (serve_all rqs w) c)"
  using stored_serve [of rq w] prefix_serve_all [of w c rqs] by (rule conjI)

end
